theory Spec2Isabelle
  imports Main
begin

section \<open>The line-editor facade of \<^verbatim>\<open>Sources/EditLine/editline.c\<close>\<close>

text \<open>
  The file is a facade over the line-editing library (\<^verbatim>\<open>histedit.h\<close>): two static
  handles, a prompt callback and four operations. The embedding keeps the two handles as
  fields of a world record, next to the state of the library they point into. A C pointer
  is an \<open>addr option\<close> (\<open>None\<close> is \<^verbatim>\<open>NULL\<close>); a C string is a \<open>string\<close> without its
  terminating NUL byte. Every operation returns \<open>fault + \<dots>\<close>: \<open>Inl\<close> is the
  undefined behaviour of C (a null or released handle dereferenced), after which nothing
  more is said about the process.

  The static \<^verbatim>\<open>historyEvent\<close> is an out-parameter of the library's \<^verbatim>\<open>history\<close> call that
  the facade never reads; it is not part of the world.
\<close>

subsection \<open>Data\<close>

type_synonym addr = nat

datatype fault =
    NullHandle string    \<comment> \<open>the named library call dereferenced a \<^verbatim>\<open>NULL\<close> handle\<close>
  | StaleHandle string   \<comment> \<open>the named library call received a released handle\<close>
  | NullLine             \<comment> \<open>\<^verbatim>\<open>line[0]\<close> read through a \<^verbatim>\<open>NULL\<close> line pointer\<close>

text \<open>An \<^verbatim>\<open>EditLine\<close> object: what \<^verbatim>\<open>el_init\<close> and \<^verbatim>\<open>el_set\<close> configure, and its terminal state.\<close>

record editor =
  prog :: string
  prompt_hook :: "(addr \<Rightarrow> string) option"  \<comment> \<open>\<^verbatim>\<open>EL_PROMPT\<close>; \<open>None\<close>: the library's default\<close>
  edit_mode :: "string option"                \<comment> \<open>\<^verbatim>\<open>EL_EDITOR\<close>; \<open>None\<close>: the library's default\<close>
  hist_link :: "addr option"                  \<comment> \<open>\<^verbatim>\<open>EL_HIST\<close>\<close>
  line_buffer :: string                       \<comment> \<open>the buffer the returned line points into\<close>
  raw_mode :: bool                            \<comment> \<open>the terminal is left in raw mode\<close>

text \<open>A \<^verbatim>\<open>History\<close> object: its capacity (\<^verbatim>\<open>H_SETSIZE\<close>) and its entries, oldest first.\<close>

record hist =
  capacity :: nat
  entries :: "string list"

record world =
  editors :: "addr \<rightharpoonup> editor"        \<comment> \<open>the library's live \<^verbatim>\<open>EditLine\<close> objects\<close>
  histories :: "addr \<rightharpoonup> hist"        \<comment> \<open>the library's live \<^verbatim>\<open>History\<close> objects\<close>
  fresh :: addr                         \<comment> \<open>the next address the allocator hands out\<close>
  shown :: "string list"                \<comment> \<open>the prompts written to the terminal, in order\<close>
  editLine :: "addr option"             \<comment> \<open>\<^verbatim>\<open>static EditLine *editLine\<close>\<close>
  historyInstance :: "addr option"      \<comment> \<open>\<^verbatim>\<open>static History *historyInstance\<close>\<close>

text \<open>C statics start as \<^verbatim>\<open>NULL\<close>; nothing is allocated and nothing has been printed.\<close>

definition init_world :: world where
  "init_world =
     \<lparr>editors = Map.empty, histories = Map.empty, fresh = 0, shown = [],
      editLine = None, historyInstance = None\<rparr>"

text \<open>What the user does at the terminal during one \<^verbatim>\<open>el_gets\<close>.\<close>

datatype tty_event =
    Commit string     \<comment> \<open>the bytes of a committed line, its trailing newline included\<close>
  | EndOfInput
  | Interrupted
  | ReadError

datatype el_param =
    EL_PROMPT "addr \<Rightarrow> string"
  | EL_EDITOR string
  | EL_HIST "addr option"

datatype hist_request =
    H_SETSIZE int
  | H_ENTER string

definition newline :: char where
  "newline = CHR 0x0A"

text \<open>\<^verbatim>\<open>line[0]\<close> of a C string: its first byte, the terminating NUL when it is empty.\<close>

fun first_byte :: "string \<Rightarrow> char" where
  "first_byte [] = CHR 0x00"
| "first_byte (c # cs) = c"

text \<open>Sequencing of calls that may fault: the first fault ends the run.\<close>

definition seq :: "fault + 'a \<Rightarrow> ('a \<Rightarrow> fault + 'b) \<Rightarrow> fault + 'b" where
  "seq m f = (case m of Inl e \<Rightarrow> Inl e | Inr x \<Rightarrow> f x)"

subsection \<open>The editor engine\<close>

text \<open>
  The engine is the external library behind \<^verbatim>\<open>histedit.h\<close>; none of its code is in the
  repository. Each primitive below is modelled from section 4.2 of the specification and
  from the way the facade calls it. Allocation can fail and the user decides what a read
  returns, so both are arguments: \<open>ok\<close> says whether the allocation succeeds, a
  \<open>tty_event\<close> says what happens at the terminal.

  On a \<^verbatim>\<open>NULL\<close> handle the library's \<^verbatim>\<open>el_set\<close> and \<^verbatim>\<open>el_end\<close> test for it and do
  nothing; \<^verbatim>\<open>el_gets\<close>, \<^verbatim>\<open>el_reset\<close>, \<^verbatim>\<open>history\<close> and \<^verbatim>\<open>history_end\<close> read through the handle,
  which is a fault. A handle that was released is a fault in every call.
\<close>

text \<open>Modelled from the spec: \<^verbatim>\<open>el_init\<close>, which allocates an Editor bound to the standard
  streams under a program tag, or returns \<^verbatim>\<open>NULL\<close> when it cannot be allocated.\<close>

definition el_init :: "bool \<Rightarrow> string \<Rightarrow> world \<Rightarrow> addr option \<times> world" where
  "el_init ok name w =
     (if ok then
        (Some (fresh w),
         w\<lparr>editors := (editors w)(fresh w \<mapsto>
              \<lparr>prog = name, prompt_hook = None, edit_mode = None, hist_link = None,
               line_buffer = [], raw_mode = False\<rparr>),
           fresh := Suc (fresh w)\<rparr>)
      else (None, w))"

text \<open>Modelled from the spec: \<^verbatim>\<open>el_set\<close>, which installs the prompt hook, the edit mode
  or the history of an Editor and returns a result code. The library answers a \<^verbatim>\<open>NULL\<close>
  handle with the code \<open>-1\<close> and does nothing.\<close>

definition el_set :: "addr option \<Rightarrow> el_param \<Rightarrow> world \<Rightarrow> fault + (int \<times> world)" where
  "el_set el p w =
     (case el of
        None \<Rightarrow> Inr (- 1, w)
      | Some a \<Rightarrow>
          (case editors w a of
             None \<Rightarrow> Inl (StaleHandle ''el_set'')
           | Some ed \<Rightarrow>
               (case p of
                  EL_PROMPT f \<Rightarrow> Inr (0, w\<lparr>editors := (editors w)(a \<mapsto> ed\<lparr>prompt_hook := Some f\<rparr>)\<rparr>)
                | EL_EDITOR m \<Rightarrow>
                    (if m = ''emacs'' \<or> m = ''vi''
                     then Inr (0, w\<lparr>editors := (editors w)(a \<mapsto> ed\<lparr>edit_mode := Some m\<rparr>)\<rparr>)
                     else Inr (- 1, w))
                | EL_HIST h \<Rightarrow> Inr (0, w\<lparr>editors := (editors w)(a \<mapsto> ed\<lparr>hist_link := h\<rparr>)\<rparr>))))"

text \<open>Modelled from the spec: \<^verbatim>\<open>history_init\<close>, which allocates an empty History, or
  returns \<^verbatim>\<open>NULL\<close> when it cannot be allocated.\<close>

definition history_init :: "bool \<Rightarrow> world \<Rightarrow> addr option \<times> world" where
  "history_init ok w =
     (if ok then
        (Some (fresh w),
         w\<lparr>histories := (histories w)(fresh w \<mapsto> \<lparr>capacity = 0, entries = []\<rparr>),
           fresh := Suc (fresh w)\<rparr>)
      else (None, w))"

text \<open>Modelled from the spec: the append of the history interface. "When full, the oldest
  entry is evicted before the newest is appended (FIFO eviction)."\<close>

definition hist_enter :: "string \<Rightarrow> hist \<Rightarrow> hist" where
  "hist_enter l h =
     h\<lparr>entries := (if capacity h \<le> length (entries h) then tl (entries h) else entries h) @ [l]\<rparr>"

text \<open>Modelled from the spec: \<^verbatim>\<open>history\<close>, the history interface "that accepts
  append-this-entry commands and a capacity setting", with its result code. It reads
  through the handle, so a \<^verbatim>\<open>NULL\<close> handle is a fault.\<close>

definition history :: "addr option \<Rightarrow> hist_request \<Rightarrow> world \<Rightarrow> fault + (int \<times> world)" where
  "history hp req w =
     (case hp of
        None \<Rightarrow> Inl (NullHandle ''history'')
      | Some a \<Rightarrow>
          (case histories w a of
             None \<Rightarrow> Inl (StaleHandle ''history'')
           | Some h \<Rightarrow>
               (case req of
                  H_SETSIZE n \<Rightarrow>
                    (if n < 0 then Inr (- 1, w)
                     else Inr (0, w\<lparr>histories := (histories w)(a \<mapsto> h\<lparr>capacity := nat n\<rparr>)\<rparr>))
                | H_ENTER l \<Rightarrow>
                    Inr (1, w\<lparr>histories := (histories w)(a \<mapsto> hist_enter l h)\<rparr>))))"

text \<open>Modelled from the spec: \<^verbatim>\<open>history_end\<close>, which ends and releases a History.\<close>

definition history_end :: "addr option \<Rightarrow> world \<Rightarrow> fault + world" where
  "history_end hp w =
     (case hp of
        None \<Rightarrow> Inl (NullHandle ''history_end'')
      | Some a \<Rightarrow>
          (case histories w a of
             None \<Rightarrow> Inl (StaleHandle ''history_end'')
           | Some h \<Rightarrow> Inr (w\<lparr>histories := (histories w)(a := None)\<rparr>)))"

text \<open>Modelled from the spec: the single-line read primitive "returns (text pointer, byte
  count). Byte count \<open>\<le> 0\<close> signals no-line (EOF or interrupt); \<open>> 0\<close> signals a
  committed line of that many bytes including any trailing newline."\<close>

fun read_outcome :: "tty_event \<Rightarrow> string option \<times> int" where
  "read_outcome (Commit s) = (if s = [] then (None, 0) else (Some s, int (length s)))"
| "read_outcome EndOfInput = (None, 0)"
| "read_outcome Interrupted = (None, - 1)"
| "read_outcome ReadError = (None, - 1)"

text \<open>Modelled from the spec: the prompt an Editor shows is what its prompt hook returns;
  without a hook the library shows its own prompt.\<close>

definition prompt_of :: "addr \<Rightarrow> editor \<Rightarrow> string" where
  "prompt_of a ed = (case prompt_hook ed of None \<Rightarrow> ''? '' | Some f \<Rightarrow> f a)"

text \<open>Modelled from the spec: \<^verbatim>\<open>el_gets\<close>. The engine invokes the prompt hook "at the start
  of each line", shows what it returns, and drives the terminal until the user commits,
  cancels or ends the input. The committed line stays in the Editor's buffer; an
  interrupt leaves the terminal in raw mode. The count is a C \<^verbatim>\<open>int\<close>; a line is far
  shorter than \<open>2^31\<close> bytes, so it is an \<open>int\<close> here and never wraps.\<close>

definition el_gets :: "addr option \<Rightarrow> tty_event \<Rightarrow> world \<Rightarrow> fault + ((string option \<times> int) \<times> world)" where
  "el_gets el ev w =
     (case el of
        None \<Rightarrow> Inl (NullHandle ''el_gets'')
      | Some a \<Rightarrow>
          (case editors w a of
             None \<Rightarrow> Inl (StaleHandle ''el_gets'')
           | Some ed \<Rightarrow>
               Inr (read_outcome ev,
                    w\<lparr>shown := shown w @ [prompt_of a ed],
                      editors := (editors w)(a \<mapsto>
                        ed\<lparr>line_buffer := (case fst (read_outcome ev) of None \<Rightarrow> [] | Some s \<Rightarrow> s),
                           raw_mode := (ev = Interrupted)\<rparr>)\<rparr>)))"

text \<open>Modelled from the spec: \<^verbatim>\<open>el_reset\<close>, which reinitialises the Editor's terminal
  state: "drop any pending input, restore cooked/raw mode to a clean baseline, clear any
  partially edited buffer".\<close>

definition el_reset :: "addr option \<Rightarrow> world \<Rightarrow> fault + world" where
  "el_reset el w =
     (case el of
        None \<Rightarrow> Inl (NullHandle ''el_reset'')
      | Some a \<Rightarrow>
          (case editors w a of
             None \<Rightarrow> Inl (StaleHandle ''el_reset'')
           | Some ed \<Rightarrow>
               Inr (w\<lparr>editors := (editors w)(a \<mapsto> ed\<lparr>line_buffer := [], raw_mode := False\<rparr>)\<rparr>)))"

text \<open>Modelled from the spec: \<^verbatim>\<open>el_end\<close>, which releases an Editor.\<close>

definition el_end :: "addr option \<Rightarrow> world \<Rightarrow> fault + world" where
  "el_end el w =
     (case el of
        None \<Rightarrow> Inr w
      | Some a \<Rightarrow>
          (case editors w a of
             None \<Rightarrow> Inl (StaleHandle ''el_end'')
           | Some ed \<Rightarrow> Inr (w\<lparr>editors := (editors w)(a := None)\<rparr>)))"

subsection \<open>The facade\<close>

text \<open>\<^verbatim>\<open>static char *prompt(EditLine *e)\<close>\<close>

definition prompt :: "addr \<Rightarrow> string" where
  "prompt e = ''> ''"

text \<open>\<^verbatim>\<open>void lineEditorCreate(void)\<close>. The two booleans are the outcomes of the two
  allocations. Every result code is dropped, as in the source.\<close>

definition lineEditorCreate :: "bool \<Rightarrow> bool \<Rightarrow> world \<Rightarrow> fault + world" where
  "lineEditorCreate el_ok hist_ok w0 =
     (let (e, w1) = el_init el_ok ''command'' w0;
          w2 = w1\<lparr>editLine := e\<rparr>
      in seq (el_set (editLine w2) (EL_PROMPT prompt) w2) (\<lambda>(rc1, w3).
         seq (el_set (editLine w3) (EL_EDITOR ''emacs'') w3) (\<lambda>(rc2, w4).
         let (h, w5) = history_init hist_ok w4;
             w6 = w5\<lparr>historyInstance := h\<rparr>
         in seq (history (historyInstance w6) (H_SETSIZE 800) w6) (\<lambda>(rc3, w7).
            seq (el_set (editLine w7) (EL_HIST (historyInstance w7)) w7) (\<lambda>(rc4, w8).
            Inr w8)))))"

text \<open>\<^verbatim>\<open>void lineEditorDestroy(void)\<close>\<close>

definition lineEditorDestroy :: "world \<Rightarrow> fault + world" where
  "lineEditorDestroy w0 =
     seq (if historyInstance w0 \<noteq> None
          then seq (history_end (historyInstance w0) w0) (\<lambda>w. Inr (w\<lparr>historyInstance := None\<rparr>))
          else Inr w0) (\<lambda>w1.
     if editLine w1 \<noteq> None
     then seq (el_reset (editLine w1) w1) (\<lambda>w2.
          seq (el_end (editLine w2) w2) (\<lambda>w3.
          Inr (w3\<lparr>editLine := None\<rparr>)))
     else Inr w1)"

text \<open>\<^verbatim>\<open>const char *lineEditorReadLine(void)\<close>, with the library's \<^verbatim>\<open>history\<close> entry point as
  an argument, so that the facade can be run against a history whose append fails.\<close>

definition lineEditorReadLine_with ::
  "(addr option \<Rightarrow> hist_request \<Rightarrow> world \<Rightarrow> fault + (int \<times> world)) \<Rightarrow>
   tty_event \<Rightarrow> world \<Rightarrow> fault + (string option \<times> world)" where
  "lineEditorReadLine_with hist ev w0 =
     seq (el_gets (editLine w0) ev w0) (\<lambda>((line, count), w1).
     if count \<le> 0 then Inr (None, w1)
     else
       (case line of
          None \<Rightarrow> Inl NullLine
        | Some l \<Rightarrow>
            if first_byte l \<noteq> newline
            then seq (hist (historyInstance w1) (H_ENTER l) w1) (\<lambda>(rc, w2). Inr (Some l, w2))
            else Inr (Some l, w1)))"

text \<open>The function as linked: against the library's \<^verbatim>\<open>history\<close>.\<close>

definition lineEditorReadLine :: "tty_event \<Rightarrow> world \<Rightarrow> fault + (string option \<times> world)" where
  "lineEditorReadLine = lineEditorReadLine_with history"

text \<open>\<^verbatim>\<open>void lineEditorReset(void)\<close>\<close>

definition lineEditorReset :: "world \<Rightarrow> fault + world" where
  "lineEditorReset w = el_reset (editLine w) w"

subsection \<open>Sessions\<close>

text \<open>The calls a client can make, and a run of them from a state; a fault ends the run.\<close>

datatype call =
    Create bool bool
  | Destroy
  | ReadLine tty_event
  | Reset

fun step :: "call \<Rightarrow> world \<Rightarrow> fault + world" where
  "step (Create el_ok hist_ok) w = lineEditorCreate el_ok hist_ok w"
| "step Destroy w = lineEditorDestroy w"
| "step (ReadLine ev) w = seq (lineEditorReadLine ev w) (\<lambda>(r, w'). Inr w')"
| "step Reset w = lineEditorReset w"

fun run :: "call list \<Rightarrow> world \<Rightarrow> fault + world" where
  "run [] w = Inr w"
| "run (c # cs) w = seq (step c w) (run cs)"

text \<open>The states a process can be in: those some run of calls reaches from the start.\<close>

definition reachable :: "world \<Rightarrow> bool" where
  "reachable w = (\<exists>cs. run cs init_world = Inr w)"

text \<open>The History the facade holds, as the list of its entries.\<close>

definition held_history :: "world \<Rightarrow> string list option" where
  "held_history w =
     (case historyInstance w of
        None \<Rightarrow> None
      | Some a \<Rightarrow> map_option entries (histories w a))"

text \<open>Absent: both holders are \<^verbatim>\<open>NULL\<close>. Live: both hold a live object.\<close>

definition absent :: "world \<Rightarrow> bool" where
  "absent w = (editLine w = None \<and> historyInstance w = None)"

definition live :: "world \<Rightarrow> bool" where
  "live w =
     ((case editLine w of None \<Rightarrow> False | Some a \<Rightarrow> editors w a \<noteq> None) \<and>
      (case historyInstance w of None \<Rightarrow> False | Some a \<Rightarrow> histories w a \<noteq> None))"

text \<open>What holds in every reachable state: a holder that is set points at a live object;
  the held Editor has the facade's prompt hook and comes with a held History; the held
  History has capacity 800 and at most 800 entries; every live object lies below the
  allocator's next address.\<close>

definition sound :: "world \<Rightarrow> bool" where
  "sound w =
     ((\<forall>a. editLine w = Some a \<longrightarrow>
          (\<exists>ed. editors w a = Some ed \<and> prompt_hook ed = Some prompt) \<and> historyInstance w \<noteq> None) \<and>
      (\<forall>a. historyInstance w = Some a \<longrightarrow>
          (\<exists>h. histories w a = Some h \<and> capacity h = 800 \<and> length (entries h) \<le> 800)) \<and>
      (\<forall>a. editors w a \<noteq> None \<longrightarrow> a < fresh w) \<and>
      (\<forall>a. histories w a \<noteq> None \<longrightarrow> a < fresh w))"

subsection \<open>Sample sessions\<close>

text \<open>The state after a run of calls from the start, for runs that do not fault.\<close>

definition after :: "call list \<Rightarrow> world" where
  "after cs = projr (run cs init_world)"

text \<open>Distinct lines that do not start with a newline, and the session feeding the first
  \<open>n\<close> of them, one per read.\<close>

definition sample_line :: "nat \<Rightarrow> string" where
  "sample_line i = replicate (Suc i) (CHR ''x'') @ [newline]"

definition feed :: "nat \<Rightarrow> call list" where
  "feed n = map (\<lambda>i. ReadLine (Commit (sample_line i))) [0..<n]"

text \<open>A history entry point whose every request fails: the code \<open>-1\<close>, nothing stored.\<close>

definition history_failing :: "addr option \<Rightarrow> hist_request \<Rightarrow> world \<Rightarrow> fault + (int \<times> world)" where
  "history_failing hp req w = Inr (- 1, w)"

section \<open>Properties\<close>

subsection \<open>What each call computes\<close>

lemmas engine_defs =
  el_init_def el_set_def history_init_def history_def history_end_def el_gets_def
  el_reset_def el_end_def seq_def

lemmas readLine_defs = lineEditorReadLine_def lineEditorReadLine_with_def

text \<open>\<^verbatim>\<open>lineEditorCreate\<close> by allocation outcome: both objects, the History alone, or a
  \<^verbatim>\<open>NULL\<close> History handed to \<^verbatim>\<open>history\<close>.\<close>

lemma create_both:
  "lineEditorCreate True True w =
     Inr (w\<lparr>editors := (editors w)(fresh w \<mapsto>
              \<lparr>prog = ''command'', prompt_hook = Some prompt, edit_mode = Some ''emacs'',
               hist_link = Some (Suc (fresh w)), line_buffer = [], raw_mode = False\<rparr>),
            histories := (histories w)(Suc (fresh w) \<mapsto> \<lparr>capacity = 800, entries = []\<rparr>),
            fresh := Suc (Suc (fresh w)),
            editLine := Some (fresh w),
            historyInstance := Some (Suc (fresh w))\<rparr>)"
  by (simp add: lineEditorCreate_def engine_defs)

lemma create_no_editor:
  "lineEditorCreate False True w =
     Inr (w\<lparr>histories := (histories w)(fresh w \<mapsto> \<lparr>capacity = 800, entries = []\<rparr>),
            fresh := Suc (fresh w),
            editLine := None,
            historyInstance := Some (fresh w)\<rparr>)"
  by (simp add: lineEditorCreate_def engine_defs)

lemma create_no_history:
  "lineEditorCreate el_ok False w = Inl (NullHandle ''history'')"
  by (simp add: lineEditorCreate_def engine_defs)

lemma destroy_absent: "absent w \<Longrightarrow> lineEditorDestroy w = Inr w"
  by (simp add: absent_def lineEditorDestroy_def seq_def)

lemma destroy_result_absent:
  "lineEditorDestroy w = Inr w' \<Longrightarrow> absent w'"
  by (auto simp: absent_def lineEditorDestroy_def engine_defs
           split: option.splits sum.splits if_splits)

lemma destroy_releases:
  "lineEditorDestroy w = Inr w' \<Longrightarrow>
     (\<forall>a. editLine w = Some a \<longrightarrow> editors w' a = None) \<and>
     (\<forall>a. historyInstance w = Some a \<longrightarrow> histories w' a = None)"
  by (auto simp: lineEditorDestroy_def engine_defs
           split: option.splits sum.splits if_splits)

lemma read_outcome_line:
  "read_outcome ev = (line, count) \<Longrightarrow> 0 < count \<Longrightarrow> line = Some s \<Longrightarrow>
     ev = Commit s \<and> int (length s) = count"
  by (cases ev) (auto split: if_splits)

lemma read_outcome_none:
  "read_outcome ev = (line, count) \<Longrightarrow> (line = None) = (count \<le> 0)"
  by (cases ev) (auto split: if_splits)

subsection \<open>The invariant of the reachable states\<close>

lemma sound_init: "sound init_world"
  by (simp add: sound_def init_world_def)

lemma sound_create:
  assumes "sound w" and "lineEditorCreate el_ok hist_ok w = Inr w'"
  shows "sound w'"
proof (cases hist_ok)
  case False
  with assms show ?thesis by (simp add: create_no_history)
next
  case True
  show ?thesis
  proof (cases el_ok)
    case True
    with \<open>hist_ok\<close> assms(2) have "w' = projr (lineEditorCreate True True w)" by simp
    with assms(1) show ?thesis
      unfolding create_both sound_def by (auto simp: less_Suc_eq)
  next
    case False
    with \<open>hist_ok\<close> assms(2) have "w' = projr (lineEditorCreate False True w)" by simp
    with assms(1) show ?thesis
      unfolding create_no_editor sound_def by (auto simp: less_Suc_eq)
  qed
qed

lemma destroy_returns:
  "sound w \<Longrightarrow> \<exists>w'. lineEditorDestroy w = Inr w'"
  by (auto simp: sound_def lineEditorDestroy_def engine_defs
           split: option.splits sum.splits if_splits)

lemma sound_destroy:
  "sound w \<Longrightarrow> lineEditorDestroy w = Inr w' \<Longrightarrow> sound w'"
  by (auto simp: sound_def lineEditorDestroy_def engine_defs
           split: option.splits sum.splits if_splits)

lemma sound_reset:
  "sound w \<Longrightarrow> lineEditorReset w = Inr w' \<Longrightarrow> sound w'"
  by (auto simp: sound_def lineEditorReset_def engine_defs
           split: option.splits sum.splits if_splits)

lemma sound_readLine:
  "sound w \<Longrightarrow> lineEditorReadLine ev w = Inr (r, w') \<Longrightarrow> sound w'"
  by (auto simp: sound_def readLine_defs engine_defs hist_enter_def
           split: option.splits sum.splits if_splits prod.splits)

lemma sound_step: "sound w \<Longrightarrow> step c w = Inr w' \<Longrightarrow> sound w'"
  by (cases c)
     (auto simp: seq_def dest: sound_create sound_destroy sound_reset sound_readLine
           split: sum.splits prod.splits)

lemma sound_run: "sound w \<Longrightarrow> run cs w = Inr w' \<Longrightarrow> sound w'"
proof (induction cs arbitrary: w)
  case Nil
  then show ?case by simp
next
  case (Cons c cs)
  from Cons.prems(2) obtain w1 where s: "step c w = Inr w1" and r: "run cs w1 = Inr w'"
    by (auto simp: seq_def split: sum.splits)
  from Cons.prems(1) s have "sound w1" by (rule sound_step)
  then show ?case using r by (rule Cons.IH)
qed

lemma reachable_sound: "reachable w \<Longrightarrow> sound w"
  unfolding reachable_def using sound_run [OF sound_init] by blast

lemma run_reachable: "run cs init_world = Inr w \<Longrightarrow> reachable w"
  unfolding reachable_def by blast

subsection \<open>The sample sessions\<close>

lemma after_create:
  "after [Create True True] =
     \<lparr>editors = [0 \<mapsto> \<lparr>prog = ''command'', prompt_hook = Some prompt, edit_mode = Some ''emacs'',
                        hist_link = Some 1, line_buffer = [], raw_mode = False\<rparr>],
      histories = [1 \<mapsto> \<lparr>capacity = 800, entries = []\<rparr>],
      fresh = 2, shown = [], editLine = Some 0, historyInstance = Some 1\<rparr>"
  by (simp add: after_def seq_def create_both init_world_def)

lemma reachable_after_create: "reachable (after [Create True True])"
  by (rule run_reachable [of "[Create True True]"])
     (simp add: after_def seq_def create_both)

lemma live_after_create: "live (after [Create True True])"
  by (simp add: after_create live_def)

lemma run_append: "run (cs @ ds) w = seq (run cs w) (run ds)"
  by (induction cs arbitrary: w) (auto simp: seq_def split: sum.splits)

lemma first_byte_sample: "first_byte (sample_line i) \<noteq> newline"
  by (simp add: sample_line_def newline_def)

lemma sample_line_count: "0 < int (length (sample_line i))" "sample_line i \<noteq> []"
  by (simp_all add: sample_line_def)

lemma feed_Suc: "feed (Suc n) = feed n @ [ReadLine (Commit (sample_line n))]"
  by (simp add: feed_def)

text \<open>Up to 800 lines fed after \<^verbatim>\<open>lineEditorCreate\<close> are all retained, in order.\<close>

lemma feed_history:
  "n \<le> 800 \<Longrightarrow>
     \<exists>w. run (Create True True # feed n) init_world = Inr w \<and>
         editLine w = Some 0 \<and> editors w 0 \<noteq> None \<and> historyInstance w = Some 1 \<and>
         histories w 1 = Some \<lparr>capacity = 800, entries = map sample_line [0..<n]\<rparr>"
proof (induction n)
  case 0
  show ?case by (simp add: feed_def seq_def create_both init_world_def)
next
  case (Suc n)
  then obtain w where w: "run (Create True True # feed n) init_world = Inr w"
    "editLine w = Some 0" "editors w 0 \<noteq> None" "historyInstance w = Some 1"
    "histories w 1 = Some \<lparr>capacity = 800, entries = map sample_line [0..<n]\<rparr>"
    by auto
  from w(3) obtain ed where ed: "editors w 0 = Some ed" by auto
  have "run (Create True True # feed (Suc n)) init_world =
          seq (run (Create True True # feed n) init_world) (run [ReadLine (Commit (sample_line n))])"
    unfolding feed_Suc using run_append [of "Create True True # feed n"] by simp
  also have "\<dots> = step (ReadLine (Commit (sample_line n))) w"
    using w(1) by (simp add: seq_def split: sum.splits)
  finally have r: "run (Create True True # feed (Suc n)) init_world =
      step (ReadLine (Commit (sample_line n))) w" .
  from Suc.prems w ed show ?case
    unfolding r
    by (simp add: readLine_defs engine_defs hist_enter_def first_byte_sample sample_line_count)
qed

lemma upt_shift:
  assumes "0 < n"
  shows "tl (map f [0..<n]) @ [f n] = map f [Suc 0..<Suc n]"
proof -
  from assms have "[0..<n] = 0 # [Suc 0..<n]" by (rule upt_conv_Cons)
  with assms show ?thesis by simp
qed

subsection \<open>The claims\<close>

text \<open>
  C1. For every \<^verbatim>\<open>lineEditorReadLine\<close> call that returns a non-null line: if the first
  byte of the line is not the newline character, the line is appended to the held History
  as a single entry, at its end (after the eviction of at most the oldest entry), and no
  other History changes; if the first byte is the newline character, no History changes
  and the holder is the same, so the length of the History is what it was.
\<close>

theorem readLine_history_append:
  assumes "lineEditorReadLine ev w = Inr (Some l, w')"
  shows "(first_byte l \<noteq> newline \<longrightarrow>
            (\<exists>a es. historyInstance w = Some a \<and> historyInstance w' = Some a \<and>
                    held_history w = Some es \<and>
                    (held_history w' = Some (es @ [l]) \<or> held_history w' = Some (tl es @ [l])) \<and>
                    (\<forall>b. b \<noteq> a \<longrightarrow> histories w' b = histories w b))) \<and>
         (first_byte l = newline \<longrightarrow>
            histories w' = histories w \<and> historyInstance w' = historyInstance w \<and>
            held_history w' = held_history w)"
  using assms
  by (auto simp: readLine_defs engine_defs held_history_def hist_enter_def
           split: option.splits sum.splits if_splits prod.splits)

text \<open>In a fresh session the line \<^verbatim>\<open>ls\<close> is entered and a bare Enter is not.\<close>

theorem readLine_history_append_witness:
  "lineEditorReadLine (Commit (''ls'' @ [newline])) (after [Create True True]) =
     Inr (Some (''ls'' @ [newline]),
          snd (projr (lineEditorReadLine (Commit (''ls'' @ [newline])) (after [Create True True])))) \<and>
   held_history (after [Create True True]) = Some [] \<and>
   held_history (snd (projr (lineEditorReadLine (Commit (''ls'' @ [newline])) (after [Create True True]))))
     = Some [''ls'' @ [newline]] \<and>
   lineEditorReadLine (Commit [newline]) (after [Create True True]) =
     Inr (Some [newline],
          snd (projr (lineEditorReadLine (Commit [newline]) (after [Create True True])))) \<and>
   held_history (snd (projr (lineEditorReadLine (Commit [newline]) (after [Create True True]))))
     = Some []"
proof -
  let ?w = "after [Create True True]"
  let ?l = "''ls'' @ [newline]"
  have a: "lineEditorReadLine (Commit ?l) ?w =
             Inr (Some ?l, snd (projr (lineEditorReadLine (Commit ?l) ?w)))"
    by (simp add: after_create readLine_defs engine_defs newline_def)
  have b: "lineEditorReadLine (Commit [newline]) ?w =
             Inr (Some [newline], snd (projr (lineEditorReadLine (Commit [newline]) ?w)))"
    by (simp add: after_create readLine_defs engine_defs)
  have c: "held_history ?w = Some []"
    by (simp add: after_create held_history_def)
  have d: "first_byte ?l \<noteq> newline" "first_byte [newline] = newline"
    by (simp_all add: newline_def)
  from readLine_history_append [OF a] readLine_history_append [OF b] a b c d
  show ?thesis by auto
qed

text \<open>
  C2. In a live state \<^verbatim>\<open>lineEditorReadLine\<close> returns, and it returns \<^verbatim>\<open>NULL\<close> exactly when
  the single-line read \<^verbatim>\<open>el_gets\<close> reports a byte count \<open>\<le> 0\<close>; then no History has
  changed. When the count is \<open>> 0\<close> it returns the line pointer of the read, which is
  non-null: the committed line, of that many bytes.
\<close>

theorem readLine_null_iff_no_line:
  assumes "live w"
  shows "\<exists>line count w1 r w'.
           el_gets (editLine w) ev w = Inr ((line, count), w1) \<and>
           lineEditorReadLine ev w = Inr (r, w') \<and>
           (r = None \<longleftrightarrow> count \<le> 0) \<and>
           (count \<le> 0 \<longrightarrow> histories w' = histories w \<and> historyInstance w' = historyInstance w) \<and>
           (0 < count \<longrightarrow> r = line \<and> (\<exists>s. r = Some s \<and> ev = Commit s \<and> int (length s) = count))"
proof -
  from assms obtain a ed b h where
    a: "editLine w = Some a" "editors w a = Some ed" and
    b: "historyInstance w = Some b" "histories w b = Some h"
    by (auto simp: live_def split: option.splits)
  obtain line count where rc: "read_outcome ev = (line, count)" by (cases "read_outcome ev")
  show ?thesis
  proof (cases "count \<le> 0")
    case True
    with a b rc show ?thesis
      by (simp add: readLine_defs engine_defs)
  next
    case False
    with rc obtain s where s: "line = Some s" using read_outcome_none [OF rc] by auto
    with rc False have c: "ev = Commit s" "int (length s) = count"
      using read_outcome_line [OF rc _ s] by auto
    with a b rc s False show ?thesis
      by (simp add: readLine_defs engine_defs)
  qed
qed

text \<open>In a fresh session, end of input gives \<^verbatim>\<open>NULL\<close> and the line \<^verbatim>\<open>ls\<close> is returned.\<close>

theorem readLine_null_iff_no_line_witness:
  "live (after [Create True True]) \<and>
   fst (projr (lineEditorReadLine EndOfInput (after [Create True True]))) = None \<and>
   histories (snd (projr (lineEditorReadLine EndOfInput (after [Create True True])))) =
     histories (after [Create True True]) \<and>
   fst (projr (lineEditorReadLine (Commit (''ls'' @ [newline])) (after [Create True True]))) =
     Some (''ls'' @ [newline])"
  using readLine_null_iff_no_line [OF live_after_create, of EndOfInput]
    readLine_null_iff_no_line [OF live_after_create, of "Commit (''ls'' @ [newline])"]
    live_after_create
  by (auto simp: after_create engine_defs)

text \<open>
  C3. The History holds at most 800 entries and evicts first-in first-out: in every
  reachable state, when \<^verbatim>\<open>lineEditorReadLine\<close> returns a line whose first byte is not a
  newline, the length of the held History afterwards is \<open>min (previous length + 1) 800\<close>;
  when the previous length was 800 the oldest entry is dropped and the line added at the
  end, and below 800 the line is added and nothing is dropped.
\<close>

theorem history_capacity_fifo:
  assumes "reachable w" and "lineEditorReadLine ev w = Inr (Some l, w')"
    and "first_byte l \<noteq> newline"
  shows "\<exists>es es'. held_history w = Some es \<and> held_history w' = Some es' \<and>
           length es \<le> 800 \<and>
           length es' = min (length es + 1) 800 \<and>
           (length es = 800 \<longrightarrow> es' = tl es @ [l]) \<and>
           (length es < 800 \<longrightarrow> es' = es @ [l])"
proof -
  from assms(1) have "sound w" by (rule reachable_sound)
  with assms(2,3) show ?thesis
    by (auto simp: sound_def readLine_defs engine_defs held_history_def hist_enter_def
             split: option.splits sum.splits if_splits prod.splits)
qed

text \<open>After 800 distinct lines the History holds all of them; the next line evicts the
  first.\<close>

theorem history_capacity_fifo_witness:
  "reachable (after (Create True True # feed 800)) \<and>
   fst (projr (lineEditorReadLine (Commit (sample_line 800)) (after (Create True True # feed 800))))
     = Some (sample_line 800) \<and>
   first_byte (sample_line 800) \<noteq> newline \<and>
   held_history (after (Create True True # feed 800)) = Some (map sample_line [0..<800]) \<and>
   held_history (snd (projr (lineEditorReadLine (Commit (sample_line 800))
       (after (Create True True # feed 800))))) = Some (map sample_line [1..<801])"
proof -
  let ?w = "after (Create True True # feed 800)"
  let ?l = "sample_line 800"
  from feed_history [of 800] obtain w where w:
    "run (Create True True # feed 800) init_world = Inr w"
    "editLine w = Some 0" "editors w 0 \<noteq> None" "historyInstance w = Some 1"
    "histories w 1 = Some \<lparr>capacity = 800, entries = map sample_line [0..<800]\<rparr>"
    by auto
  from w(1) have eq: "?w = w" by (simp add: after_def)
  from w(1) have re: "reachable ?w" unfolding eq by (rule run_reachable)
  from w(3) obtain ed where ed: "editors w 0 = Some ed" by auto
  have hh: "held_history ?w = Some (map sample_line [0..<800])"
    unfolding eq using w(4,5) by (simp add: held_history_def)
  have fb: "first_byte ?l \<noteq> newline" by (rule first_byte_sample)
  have rl: "lineEditorReadLine (Commit ?l) ?w =
              Inr (Some ?l, snd (projr (lineEditorReadLine (Commit ?l) ?w)))"
    unfolding eq using w(2,4,5) ed
    by (simp add: readLine_defs engine_defs first_byte_sample sample_line_count)
  from history_capacity_fifo [OF re rl fb] hh
  have "held_history (snd (projr (lineEditorReadLine (Commit ?l) ?w))) =
          Some (tl (map sample_line [0..<800]) @ [?l])"
    by auto
  also have "tl (map sample_line [0..<800]) @ [?l] = map sample_line [Suc 0..<Suc 800]"
    by (rule upt_shift) simp
  finally have "held_history (snd (projr (lineEditorReadLine (Commit ?l) ?w))) =
          Some (map sample_line [1..<801])" by simp
  moreover have "fst (projr (lineEditorReadLine (Commit ?l) ?w)) = Some ?l"
    by (subst rl) simp
  ultimately show ?thesis using re fb hh by simp
qed

text \<open>
  C4. \<^verbatim>\<open>lineEditorDestroy\<close> is idempotent. In every reachable state it returns; afterwards
  both holders are \<^verbatim>\<open>NULL\<close> and the Editor and the History they held are released; a
  second destroy changes nothing, so destroy after destroy is destroy; and in a state
  with both holders already \<^verbatim>\<open>NULL\<close> destroy changes nothing.
\<close>

theorem destroy_idempotent:
  assumes "reachable w"
  shows "\<exists>w'. lineEditorDestroy w = Inr w' \<and> absent w' \<and>
           (\<forall>a. editLine w = Some a \<longrightarrow> editors w' a = None) \<and>
           (\<forall>a. historyInstance w = Some a \<longrightarrow> histories w' a = None) \<and>
           lineEditorDestroy w' = Inr w' \<and>
           seq (lineEditorDestroy w) lineEditorDestroy = lineEditorDestroy w \<and>
           (absent w \<longrightarrow> w' = w)"
proof -
  from assms have "sound w" by (rule reachable_sound)
  then obtain w' where d: "lineEditorDestroy w = Inr w'" using destroy_returns by blast
  then have a: "absent w'" by (rule destroy_result_absent)
  then have dd: "lineEditorDestroy w' = Inr w'" by (rule destroy_absent)
  from d dd have "seq (lineEditorDestroy w) lineEditorDestroy = lineEditorDestroy w"
    by (simp add: seq_def)
  moreover have "absent w \<longrightarrow> w' = w" using d destroy_absent [of w] by auto
  ultimately show ?thesis using d a dd destroy_releases [OF d] by blast
qed

text \<open>Destroying a fresh session releases both objects; destroying again is the same.\<close>

theorem destroy_idempotent_witness:
  "reachable (after [Create True True]) \<and>
   absent (projr (lineEditorDestroy (after [Create True True]))) \<and>
   editors (projr (lineEditorDestroy (after [Create True True]))) 0 = None \<and>
   histories (projr (lineEditorDestroy (after [Create True True]))) 1 = None \<and>
   lineEditorDestroy (projr (lineEditorDestroy (after [Create True True]))) =
     lineEditorDestroy (after [Create True True])"
  using destroy_idempotent [OF reachable_after_create] reachable_after_create
  by (auto simp: after_create)

text \<open>
  C5, as the code has it. \<^verbatim>\<open>lineEditorCreate\<close> has no error result and checks neither
  allocation: it stores the handles it is given and releases nothing. When the Editor
  cannot be allocated and the History can, it returns normally with the Editor holder
  \<^verbatim>\<open>NULL\<close> and the History holder at a live, empty History of capacity 800, which is not
  the Absent state. When the History cannot be allocated, its \<^verbatim>\<open>NULL\<close> handle goes
  unguarded to the library's \<^verbatim>\<open>history\<close> call.
\<close>

theorem create_unchecked_allocation:
  "(\<exists>w'. lineEditorCreate False True w = Inr w' \<and>
         editLine w' = None \<and> historyInstance w' = Some (fresh w) \<and>
         histories w' (fresh w) = Some \<lparr>capacity = 800, entries = []\<rparr> \<and>
         editors w' = editors w \<and> \<not> absent w') \<and>
   lineEditorCreate el_ok False w = Inl (NullHandle ''history'')"
  by (simp add: create_no_editor create_no_history absent_def)

text \<open>At the start of the process.\<close>

theorem create_unchecked_allocation_witness:
  "historyInstance (projr (lineEditorCreate False True init_world)) = Some 0 \<and>
   \<not> absent (projr (lineEditorCreate False True init_world)) \<and>
   lineEditorCreate True False init_world = Inl (NullHandle ''history'')"
  using create_unchecked_allocation [of init_world True]
  by (auto simp: init_world_def)

text \<open>
  C5 as stated fails: at the start of the process, with the Editor allocation failing and
  the History allocation succeeding, \<^verbatim>\<open>lineEditorCreate\<close> returns without an error, the
  History it allocated is live and held, and the state is not Absent.
\<close>

theorem create_partial_state_counterexample:
  "\<not> isl (lineEditorCreate False True init_world) \<and>
   \<not> absent (projr (lineEditorCreate False True init_world)) \<and>
   editLine (projr (lineEditorCreate False True init_world)) = None \<and>
   historyInstance (projr (lineEditorCreate False True init_world)) = Some 0 \<and>
   histories (projr (lineEditorCreate False True init_world)) 0 =
     Some \<lparr>capacity = 800, entries = []\<rparr>"
  by (simp add: create_no_editor init_world_def absent_def)

text \<open>
  C6, as the code has it. In every reachable state with both holders set,
  \<^verbatim>\<open>lineEditorCreate\<close> raises no state error: it returns whenever the History is allocated.
  Whenever it returns, the holders no longer refer to the previous Editor and History,
  and neither was released: both are still allocated, unchanged.
\<close>

theorem create_replaces_without_release:
  assumes "reachable w" and "editLine w = Some e" and "historyInstance w = Some h"
  shows "(\<exists>w'. lineEditorCreate el_ok True w = Inr w') \<and>
         (\<forall>w'. lineEditorCreate el_ok hist_ok w = Inr w' \<longrightarrow>
            editors w e \<noteq> None \<and> editors w' e = editors w e \<and> editLine w' \<noteq> Some e \<and>
            histories w h \<noteq> None \<and> histories w' h = histories w h \<and>
            historyInstance w' \<noteq> Some h)"
proof -
  from assms(1) have s: "sound w" by (rule reachable_sound)
  have 1: "\<exists>w'. lineEditorCreate el_ok True w = Inr w'"
    by (cases el_ok) (simp_all add: create_both create_no_editor)
  have 2: "\<forall>w'. lineEditorCreate el_ok hist_ok w = Inr w' \<longrightarrow>
            editors w e \<noteq> None \<and> editors w' e = editors w e \<and> editLine w' \<noteq> Some e \<and>
            histories w h \<noteq> None \<and> histories w' h = histories w h \<and>
            historyInstance w' \<noteq> Some h"
  proof (cases hist_ok)
    case False
    then show ?thesis by (simp add: create_no_history)
  next
    case True
    from s assms(2,3) have l: "editors w e \<noteq> None" "histories w h \<noteq> None"
      by (auto simp: sound_def)
    with s have f: "e < fresh w" "h < fresh w" by (auto simp: sound_def)
    with l True show ?thesis
      by (cases el_ok) (auto simp: create_both create_no_editor)
  qed
  from 1 2 show ?thesis by blast
qed

text \<open>A second create in a fresh session keeps the first Editor and History allocated.\<close>

theorem create_replaces_without_release_witness:
  "reachable (after [Create True True]) \<and>
   editLine (after [Create True True]) = Some 0 \<and>
   historyInstance (after [Create True True]) = Some 1 \<and>
   \<not> isl (lineEditorCreate True True (after [Create True True])) \<and>
   editors (projr (lineEditorCreate True True (after [Create True True]))) 0 =
     editors (after [Create True True]) 0 \<and>
   editors (after [Create True True]) 0 \<noteq> None \<and>
   histories (projr (lineEditorCreate True True (after [Create True True]))) 1 =
     histories (after [Create True True]) 1 \<and>
   histories (after [Create True True]) 1 \<noteq> None"
proof -
  let ?w = "after [Create True True]"
  have h: "editLine ?w = Some 0" "historyInstance ?w = Some 1"
    by (simp_all add: after_create)
  have c: "lineEditorCreate True True ?w = Inr (projr (lineEditorCreate True True ?w))"
    by (simp add: create_both)
  from create_replaces_without_release [OF reachable_after_create h, of True True] c
    reachable_after_create h
  show ?thesis by (metis sum.disc(2))
qed

text \<open>
  C6 as stated fails: a second \<^verbatim>\<open>lineEditorCreate\<close> in a live session returns without an
  error and moves the holders to the new objects at addresses 2 and 3, while the first
  Editor (address 0) and the first History (address 1) are still allocated.
\<close>

theorem create_twice_leaks_counterexample:
  "editLine (after [Create True True]) = Some 0 \<and>
   historyInstance (after [Create True True]) = Some 1 \<and>
   live (after [Create True True]) \<and>
   \<not> isl (lineEditorCreate True True (after [Create True True])) \<and>
   editLine (projr (lineEditorCreate True True (after [Create True True]))) = Some 2 \<and>
   historyInstance (projr (lineEditorCreate True True (after [Create True True]))) = Some 3 \<and>
   editors (projr (lineEditorCreate True True (after [Create True True]))) 0 \<noteq> None \<and>
   histories (projr (lineEditorCreate True True (after [Create True True]))) 1 \<noteq> None"
  by (simp add: after_def seq_def create_both init_world_def live_def)

text \<open>
  C7. In every live state \<^verbatim>\<open>lineEditorReset\<close> returns and changes the terminal state of
  the held Editor only (its buffer is cleared and the terminal is back in cooked mode):
  every History, the History holder and the entries of the held History are what they
  were.
\<close>

theorem reset_keeps_history:
  assumes "live w"
  shows "\<exists>w' a ed. lineEditorReset w = Inr w' \<and>
           histories w' = histories w \<and> historyInstance w' = historyInstance w \<and>
           held_history w' = held_history w \<and>
           editLine w = Some a \<and> editors w a = Some ed \<and>
           w' = w\<lparr>editors := (editors w)(a \<mapsto> ed\<lparr>line_buffer := [], raw_mode := False\<rparr>)\<rparr>"
  using assms
  by (auto simp: live_def lineEditorReset_def engine_defs held_history_def split: option.splits)

text \<open>After the line \<^verbatim>\<open>ls\<close> has been read, a reset leaves it in the History.\<close>

theorem reset_keeps_history_witness:
  "live (after [Create True True, ReadLine (Commit (''ls'' @ [newline]))]) \<and>
   held_history (after [Create True True, ReadLine (Commit (''ls'' @ [newline]))]) =
     Some [''ls'' @ [newline]] \<and>
   held_history (projr (lineEditorReset
       (after [Create True True, ReadLine (Commit (''ls'' @ [newline]))]))) =
     Some [''ls'' @ [newline]]"
proof -
  let ?w = "after [Create True True, ReadLine (Commit (''ls'' @ [newline]))]"
  have l: "live ?w"
    by (simp add: after_def seq_def create_both init_world_def readLine_defs engine_defs
          newline_def live_def)
  have h: "held_history ?w = Some [''ls'' @ [newline]]"
    by (simp add: after_def seq_def create_both init_world_def readLine_defs engine_defs
          newline_def held_history_def hist_enter_def)
  from reset_keeps_history [OF l] l h show ?thesis by auto
qed

text \<open>
  C8. The callback \<^verbatim>\<open>prompt\<close> returns the two bytes \<^verbatim>\<open>"> "\<close> for every Editor; a
  \<^verbatim>\<open>lineEditorCreate\<close> that allocates the Editor installs it as the prompt hook of the held
  Editor; and in every reachable state a \<^verbatim>\<open>lineEditorReadLine\<close> that returns has shown
  exactly that prompt, once.
\<close>

theorem prompt_fixed:
  "prompt e = [CHR ''>'', CHR '' ''] \<and> length (prompt e) = 2 \<and>
   (lineEditorCreate True hist_ok w0 = Inr w1 \<longrightarrow>
      (\<exists>a ed. editLine w1 = Some a \<and> editors w1 a = Some ed \<and> prompt_hook ed = Some prompt)) \<and>
   (reachable w \<and> lineEditorReadLine ev w = Inr (r, w') \<longrightarrow> shown w' = shown w @ [''> ''])"
proof -
  have 1: "prompt e = [CHR ''>'', CHR '' ''] \<and> length (prompt e) = 2" by (simp add: prompt_def)
  have 2: "lineEditorCreate True hist_ok w0 = Inr w1 \<longrightarrow>
      (\<exists>a ed. editLine w1 = Some a \<and> editors w1 a = Some ed \<and> prompt_hook ed = Some prompt)"
    by (cases hist_ok) (auto simp: create_both create_no_history)
  have 3: "reachable w \<and> lineEditorReadLine ev w = Inr (r, w') \<longrightarrow> shown w' = shown w @ [''> '']"
  proof (intro impI, elim conjE)
    assume "reachable w" and r: "lineEditorReadLine ev w = Inr (r, w')"
    then have "sound w" by (simp add: reachable_sound)
    with r show "shown w' = shown w @ [''> '']"
      by (auto simp: sound_def readLine_defs engine_defs prompt_of_def prompt_def
               split: option.splits sum.splits if_splits prod.splits)
  qed
  from 1 2 3 show ?thesis by blast
qed

text \<open>The first read of a fresh session shows the prompt once.\<close>

theorem prompt_fixed_witness:
  "prompt 0 = ''> '' \<and>
   lineEditorCreate True True init_world = Inr (after [Create True True]) \<and>
   prompt_hook (the (editors (after [Create True True]) 0)) = Some prompt \<and>
   reachable (after [Create True True]) \<and>
   shown (snd (projr (lineEditorReadLine (Commit (''ls'' @ [newline])) (after [Create True True]))))
     = [''> '']"
proof -
  let ?w = "after [Create True True]"
  let ?l = "''ls'' @ [newline]"
  have c: "lineEditorCreate True True init_world = Inr ?w"
    by (simp add: after_def seq_def create_both)
  have a: "lineEditorReadLine (Commit ?l) ?w =
             Inr (Some ?l, snd (projr (lineEditorReadLine (Commit ?l) ?w)))"
    by (simp add: after_create readLine_defs engine_defs newline_def)
  have s: "shown ?w = []" by (simp add: after_create)
  from prompt_fixed [of 0 True init_world ?w ?w "Commit ?l" "Some ?l"
      "snd (projr (lineEditorReadLine (Commit ?l) ?w))"]
    c a s reachable_after_create
  show ?thesis by (auto simp: after_create)
qed

text \<open>
  C9. \<^verbatim>\<open>lineEditorReset\<close> and \<^verbatim>\<open>lineEditorReadLine\<close> check nothing: when the Editor holder is
  \<^verbatim>\<open>NULL\<close> the null handle reaches the library's \<^verbatim>\<open>el_reset\<close> and \<^verbatim>\<open>el_gets\<close>, which
  dereference it. \<^verbatim>\<open>lineEditorDestroy\<close> does check: with both holders \<^verbatim>\<open>NULL\<close> it calls
  nothing and changes nothing.
\<close>

theorem no_liveness_check:
  assumes "editLine w = None"
  shows "lineEditorReset w = Inl (NullHandle ''el_reset'') \<and>
         lineEditorReadLine ev w = Inl (NullHandle ''el_gets'') \<and>
         (historyInstance w = None \<longrightarrow> lineEditorDestroy w = Inr w)"
  using assms
  by (simp add: lineEditorReset_def readLine_defs lineEditorDestroy_def engine_defs)

text \<open>Before any create.\<close>

theorem no_liveness_check_witness:
  "editLine init_world = None \<and> historyInstance init_world = None \<and>
   lineEditorReset init_world = Inl (NullHandle ''el_reset'') \<and>
   lineEditorReadLine EndOfInput init_world = Inl (NullHandle ''el_gets'') \<and>
   lineEditorDestroy init_world = Inr init_world"
proof -
  have n: "editLine init_world = None" "historyInstance init_world = None"
    by (simp_all add: init_world_def)
  from no_liveness_check [OF n(1), of EndOfInput] n show ?thesis by simp
qed

text \<open>
  C10. The value \<^verbatim>\<open>lineEditorReadLine\<close> returns does not depend on what the history append
  does or answers: run against any two history entry points, from the same state and
  the same terminal event, the two calls return the same value when both return, and
  that value is fixed by the read alone (\<^verbatim>\<open>NULL\<close> when the count is \<open>\<le> 0\<close>, the line
  pointer of \<^verbatim>\<open>el_gets\<close> otherwise). The result code of the append is bound and never
  used.
\<close>

theorem readLine_result_ignores_append:
  assumes "lineEditorReadLine_with hist1 ev w = Inr (r1, w1)"
    and "lineEditorReadLine_with hist2 ev w = Inr (r2, w2)"
  shows "r1 = r2 \<and>
         (\<forall>line count wg. el_gets (editLine w) ev w = Inr ((line, count), wg) \<longrightarrow>
            r1 = (if count \<le> 0 then None else line))"
  using assms
  by (auto simp: lineEditorReadLine_with_def seq_def
           split: option.splits sum.splits if_splits prod.splits)

text \<open>In a fresh session the line \<^verbatim>\<open>ls\<close> is returned both when the append fails, and the
  History stays empty, and when it succeeds.\<close>

theorem readLine_result_ignores_append_witness:
  "fst (projr (lineEditorReadLine_with history_failing (Commit (''ls'' @ [newline]))
         (after [Create True True]))) = Some (''ls'' @ [newline]) \<and>
   held_history (snd (projr (lineEditorReadLine_with history_failing (Commit (''ls'' @ [newline]))
         (after [Create True True])))) = Some [] \<and>
   fst (projr (lineEditorReadLine_with history (Commit (''ls'' @ [newline]))
         (after [Create True True]))) = Some (''ls'' @ [newline]) \<and>
   held_history (snd (projr (lineEditorReadLine_with history (Commit (''ls'' @ [newline]))
         (after [Create True True])))) = Some [''ls'' @ [newline]]"
proof -
  let ?w = "after [Create True True]"
  let ?ev = "Commit (''ls'' @ [newline])"
  have a: "lineEditorReadLine_with history_failing ?ev ?w =
      Inr (fst (projr (lineEditorReadLine_with history_failing ?ev ?w)),
           snd (projr (lineEditorReadLine_with history_failing ?ev ?w)))"
    by (simp add: after_create lineEditorReadLine_with_def engine_defs newline_def
          history_failing_def)
  have b: "lineEditorReadLine_with history ?ev ?w =
      Inr (fst (projr (lineEditorReadLine_with history ?ev ?w)),
           snd (projr (lineEditorReadLine_with history ?ev ?w)))"
    by (simp add: after_create lineEditorReadLine_with_def engine_defs newline_def)
  have c: "fst (projr (lineEditorReadLine_with history ?ev ?w)) = Some (''ls'' @ [newline])"
    "held_history (snd (projr (lineEditorReadLine_with history ?ev ?w))) = Some [''ls'' @ [newline]]"
    "held_history (snd (projr (lineEditorReadLine_with history_failing ?ev ?w))) = Some []"
    by (simp_all add: after_create lineEditorReadLine_with_def engine_defs newline_def
          history_failing_def held_history_def hist_enter_def)
  from readLine_result_ignores_append [OF a b] c show ?thesis by simp
qed

end
